theory Spec2Isabelle
  imports Main "HOL-Library.State_Monad"
begin

section \<open>Python values used by analizadorLexico.py\<close>

text \<open>
  A Python \<open>str\<close> is a sequence of Unicode code points. A code point is modelled as a
  natural number and a \<open>str\<close> as a list of them, so that every string the program can
  receive (also one with characters beyond Latin-1) is a value of the model.
  \<open>lit\<close> writes a string literal of the source.
\<close>

type_synonym codepoint = nat
type_synonym str = "codepoint list"

definition lit :: "string \<Rightarrow> str" where
  "lit s = map of_char s"

text \<open>The exceptions the modelled methods can raise.\<close>

datatype py_error = FileNotFoundError | OSError | KeyError | ValueError

text \<open>
  \<open>str.isspace\<close> for one code point: the characters \<open>str.strip()\<close> and \<open>str.split()\<close>
  (both called without argument) treat as whitespace.
\<close>

definition isspace :: "codepoint \<Rightarrow> bool" where
  "isspace c =
     ((9 \<le> c \<and> c \<le> 13) \<or> (28 \<le> c \<and> c \<le> 32) \<or> c = 133 \<or> c = 160 \<or> c = 5760
      \<or> (8192 \<le> c \<and> c \<le> 8202) \<or> c = 8232 \<or> c = 8233 \<or> c = 8239 \<or> c = 8287
      \<or> c = 12288)"

text \<open>\<open>s.strip()\<close>: leading and trailing whitespace removed.\<close>

definition strip :: "str \<Rightarrow> str" where
  "strip s = rev (dropWhile isspace (rev (dropWhile isspace s)))"

text \<open>
  \<open>s.split()\<close>: the maximal runs of non-whitespace characters, in order; no empty
  string is produced. \<open>w\<close> is the word read so far.
\<close>

fun split_acc :: "str \<Rightarrow> str \<Rightarrow> str list" where
  "split_acc w [] = (if w = [] then [] else [w])"
| "split_acc w (c # cs) =
     (if isspace c then (if w = [] then split_acc [] cs else w # split_acc [] cs)
      else split_acc (w @ [c]) cs)"

definition split :: "str \<Rightarrow> str list" where
  "split s = split_acc [] s"

text \<open>
  Iterating over a text file (\<open>for linea in f\<close>) yields its lines, each with its
  terminating newline (code point 10) except possibly the last. The argument is the
  decoded content of the file; \<open>l\<close> is the line read so far.
\<close>

fun lineas_acc :: "str \<Rightarrow> str \<Rightarrow> str list" where
  "lineas_acc l [] = (if l = [] then [] else [l])"
| "lineas_acc l (c # cs) =
     (if c = 10 then (l @ [c]) # lineas_acc [] cs else lineas_acc (l @ [c]) cs)"

definition lineas :: "str \<Rightarrow> str list" where
  "lineas contenido = lineas_acc [] contenido"

subsection \<open>Dictionaries\<close>

text \<open>
  A Python \<open>dict\<close> is an association list in insertion order with one pair per key:
  \<open>d[k] = v\<close> replaces the value of a key that is present, in place, and appends a
  new key at the end; \<open>k in d\<close> and \<open>d[k]\<close> look the key up; \<open>len(d)\<close> counts the pairs.
\<close>

type_synonym ('k, 'v) dict = "('k \<times> 'v) list"

fun dict_setitem :: "('k, 'v) dict \<Rightarrow> 'k \<Rightarrow> 'v \<Rightarrow> ('k, 'v) dict" where
  "dict_setitem [] k v = [(k, v)]"
| "dict_setitem ((k', v') # d) k v =
     (if k' = k then (k, v) # d else (k', v') # dict_setitem d k v)"

definition dict_contains :: "('k, 'v) dict \<Rightarrow> 'k \<Rightarrow> bool" where
  "dict_contains d k = (map_of d k \<noteq> None)"

definition dict_getitem :: "('k, 'v) dict \<Rightarrow> 'k \<Rightarrow> py_error + 'v" where
  "dict_getitem d k = (case map_of d k of None \<Rightarrow> Inl KeyError | Some v \<Rightarrow> Inr v)"

definition dict_len :: "('k, 'v) dict \<Rightarrow> nat" where
  "dict_len d = length d"

subsection \<open>The regular expression\<close>

text \<open>
  The source compiles one pattern, \<^verbatim>\<open>^[a-z][a-z0-9]*$\<close>, and applies it with
  \<open>match\<close>. A compiled pattern is the sequence of its items: \<open>^\<close>, \<open>$\<close>, a character
  class, and a character class under a greedy star. A class is a list of inclusive
  ranges of code points.
\<close>

datatype re_item =
    Inicio
  | Fin
  | Clase "(codepoint \<times> codepoint) list"
  | Repetir "(codepoint \<times> codepoint) list"

type_synonym patron = "re_item list"

fun en_clase :: "(codepoint \<times> codepoint) list \<Rightarrow> codepoint \<Rightarrow> bool" where
  "en_clase [] c = False"
| "en_clase ((lo, hi) # rs) c = ((lo \<le> c \<and> c \<le> hi) \<or> en_clase rs c)"

text \<open>
  The backtracking matcher. \<open>ini\<close> says whether the position is the start of the
  string, \<open>s\<close> is the input from the position on; the result is the number of
  characters the match consumes, or \<open>None\<close>.
  Without the MULTILINE flag, \<open>^\<close> matches at the start of the string only, and \<open>$\<close>
  matches at the end of the string and also just before a newline that is the last
  character of the string. The star takes a character first and gives it back when the
  rest of the pattern fails.
\<close>

fun re_match_at :: "patron \<Rightarrow> bool \<Rightarrow> str \<Rightarrow> nat option" where
  "re_match_at [] ini s = Some 0"
| "re_match_at (Inicio # p) ini s = (if ini then re_match_at p ini s else None)"
| "re_match_at (Fin # p) ini s =
     (if s = [] \<or> s = [10] then re_match_at p ini s else None)"
| "re_match_at (Clase rs # p) ini s =
     (case s of
        [] \<Rightarrow> None
      | c # cs \<Rightarrow>
          if en_clase rs c then map_option Suc (re_match_at p False cs) else None)"
| "re_match_at (Repetir rs # p) ini s =
     (case s of
        [] \<Rightarrow> re_match_at p ini s
      | c # cs \<Rightarrow>
          if en_clase rs c then
            (case re_match_at (Repetir rs # p) False cs of
               Some n \<Rightarrow> Some (Suc n)
             | None \<Rightarrow> re_match_at p ini s)
          else re_match_at p ini s)"

text \<open>\<open>pattern.match(s)\<close>: a match anchored at position 0 (its end), or \<open>None\<close>.\<close>

definition re_match :: "patron \<Rightarrow> str \<Rightarrow> nat option" where
  "re_match p s = re_match_at p True s"

text \<open>\<^verbatim>\<open>re.compile(r'^[a-z][a-z0-9]*$')\<close>: \<open>a\<close> is 97, \<open>z\<close> is 122, \<open>0\<close> is 48, \<open>9\<close> is 57.\<close>

definition patron_compilado :: patron where
  "patron_compilado =
     [Inicio, Clase [(97, 122)], Repetir [(97, 122), (48, 57)], Fin]"

section \<open>The class AnalizadorLexico\<close>

text \<open>
  The object's two attributes. A method is a computation in the state monad over the
  object: it reads \<open>self\<close> with \<open>get\<close> and assigns an attribute with \<open>set\<close>. A method that
  can raise returns \<open>Inl\<close> of the exception. What the methods print on the console is
  not part of the model.
\<close>

record AnalizadorLexico =
  palabras_clave :: "(str, str) dict"
  patron_identificador :: patron

text \<open>
  The loop body of \<open>cargar_diccionario\<close>, for one line of the file. Unpacking
  \<open>lexema, tipo_token = partes\<close> raises ValueError unless \<open>partes\<close> has two elements.
\<close>

definition cargar_linea :: "str \<Rightarrow> (AnalizadorLexico, py_error + unit) state" where
  "cargar_linea linea0 =
     (let linea = strip linea0 in
      if linea \<noteq> [] then
        (let partes = split linea in
         if length partes = 2 then
           (case partes of
              [lexema, tipo_token] \<Rightarrow> do {
                self \<leftarrow> State_Monad.get;
                State_Monad.set
                  (self\<lparr>palabras_clave := dict_setitem (palabras_clave self) lexema tipo_token\<rparr>);
                State_Monad.return (Inr ())
              }
            | _ \<Rightarrow> State_Monad.return (Inl ValueError))
         else State_Monad.return (Inr ()))
      else State_Monad.return (Inr ()))"

text \<open>A \<open>for\<close> loop whose body can raise: the first exception ends the loop.\<close>

fun for_each :: "('a \<Rightarrow> ('s, py_error + unit) state) \<Rightarrow> 'a list \<Rightarrow> ('s, py_error + unit) state" where
  "for_each body [] = State_Monad.return (Inr ())"
| "for_each body (x # xs) = do {
     r \<leftarrow> body x;
     case r of
       Inl e \<Rightarrow> State_Monad.return (Inl e)
     | Inr _ \<Rightarrow> for_each body xs
   }"

text \<open>
  \<open>cargar_diccionario\<close>. The argument is what opening and decoding the file gives:
  \<open>Inl e\<close> when \<open>open\<close> or the read raises \<open>e\<close> (FileNotFoundError for a missing file),
  \<open>Inr contenido\<close> otherwise. Both \<open>except\<close> clauses print and re-raise, so an exception
  leaves the method as it was raised.
\<close>

definition cargar_diccionario :: "py_error + str \<Rightarrow> (AnalizadorLexico, py_error + unit) state" where
  "cargar_diccionario archivo =
     (case archivo of
        Inl e \<Rightarrow> State_Monad.return (Inl e)
      | Inr contenido \<Rightarrow> for_each cargar_linea (lineas contenido))"

text \<open>\<open>__init__\<close>: the empty table, the compiled pattern, then the dictionary is loaded.\<close>

definition AnalizadorLexico_init :: "py_error + str \<Rightarrow> py_error + AnalizadorLexico" where
  "AnalizadorLexico_init archivo_diccionario =
     (let self = \<lparr>palabras_clave = [], patron_identificador = patron_compilado\<rparr> in
      case run_state (cargar_diccionario archivo_diccionario) self of
        (Inl e, _) \<Rightarrow> Inl e
      | (Inr _, self') \<Rightarrow> Inr self')"

text \<open>\<open>es_identificador\<close>: \<open>bool\<close> of a match object is True, of \<open>None\<close> False.\<close>

definition es_identificador :: "str \<Rightarrow> (AnalizadorLexico, bool) state" where
  "es_identificador palabra = do {
     self \<leftarrow> State_Monad.get;
     State_Monad.return (re_match (patron_identificador self) palabra \<noteq> None)
   }"

text \<open>\<open>clasificar_token\<close>: the pair \<open>(tipo_token, lexema)\<close>.\<close>

definition clasificar_token :: "str \<Rightarrow> (AnalizadorLexico, py_error + str \<times> str) state" where
  "clasificar_token palabra = do {
     self \<leftarrow> State_Monad.get;
     if dict_contains (palabras_clave self) palabra then
       State_Monad.return
         (case dict_getitem (palabras_clave self) palabra of
            Inl e \<Rightarrow> Inl e
          | Inr tipo \<Rightarrow> Inr (tipo, palabra))
     else do {
       b \<leftarrow> es_identificador palabra;
       if b then State_Monad.return (Inr (lit ''IDENTIFICADOR'', palabra))
       else State_Monad.return (Inr (lit ''ERROR_LEXICO'', palabra))
     }
   }"

text \<open>
  The loop of \<open>analizar_archivo\<close> over the words, with its local list \<open>tokens\<close>:
  each classification is appended at the end.
\<close>

fun analizar_palabras ::
  "str list \<Rightarrow> (str \<times> str) list \<Rightarrow> (AnalizadorLexico, py_error + (str \<times> str) list) state" where
  "analizar_palabras [] tokens = State_Monad.return (Inr tokens)"
| "analizar_palabras (palabra # palabras) tokens = do {
     r \<leftarrow> clasificar_token palabra;
     case r of
       Inl e \<Rightarrow> State_Monad.return (Inl e)
     | Inr (tipo_token, lexema) \<Rightarrow> analizar_palabras palabras (tokens @ [(tipo_token, lexema)])
   }"

text \<open>
  \<open>analizar_archivo\<close>, up to the call of \<open>generar_salida\<close>: the result is the list
  \<open>tokens\<close> the source hands to \<open>generar_salida\<close>. The argument is what opening and
  reading the input file gives, as for \<open>cargar_diccionario\<close>. Writing the report is
  not part of the model.
\<close>

definition analizar_archivo ::
  "py_error + str \<Rightarrow> (AnalizadorLexico, py_error + (str \<times> str) list) state" where
  "analizar_archivo archivo_entrada =
     (case archivo_entrada of
        Inl e \<Rightarrow> State_Monad.return (Inl e)
      | Inr contenido \<Rightarrow> analizar_palabras (split contenido) [])"

section \<open>The specification's vocabulary\<close>

text \<open>
  The identifier rule in the words of the specification: one lowercase ASCII letter,
  followed by zero or more lowercase ASCII letters or ASCII digits, and nothing else.
\<close>

definition minuscula :: "codepoint \<Rightarrow> bool" where
  "minuscula c = (97 \<le> c \<and> c \<le> 122)"

definition digito :: "codepoint \<Rightarrow> bool" where
  "digito c = (48 \<le> c \<and> c \<le> 57)"

fun identificador_spec :: "str \<Rightarrow> bool" where
  "identificador_spec [] = False"
| "identificador_spec (c # cs) = (minuscula c \<and> list_all (\<lambda>x. minuscula x \<or> digito x) cs)"

text \<open>
  An analyzer as \<open>__init__\<close> leaves it: some keyword table \<open>T\<close> and the compiled pattern.
\<close>

definition analizador :: "(str, str) dict \<Rightarrow> AnalizadorLexico" where
  "analizador T = \<lparr>palabras_clave = T, patron_identificador = patron_compilado\<rparr>"

text \<open>
  The dictionary in the words of the specification: a line is well formed when it splits
  into exactly two whitespace-separated fields; the entries of a dictionary file are the
  (lexeme, kind) pairs of its well-formed lines, in order; the table is built by
  inserting each entry in order.
\<close>

definition bien_formada :: "str \<Rightarrow> bool" where
  "bien_formada linea = (length (split linea) = 2)"

definition entradas :: "str \<Rightarrow> (str \<times> str) list" where
  "entradas contenido =
     map (\<lambda>linea. (split linea ! 0, split linea ! 1)) (filter bien_formada (lineas contenido))"

definition construir :: "(str, str) dict \<Rightarrow> (str \<times> str) list \<Rightarrow> (str, str) dict" where
  "construir d es = foldl (\<lambda>d (lexema, tipo). dict_setitem d lexema tipo) d es"

section \<open>Running the methods\<close>

lemma run_es_identificador:
  "run_state (es_identificador t) self = (re_match (patron_identificador self) t \<noteq> None, self)"
  by (simp add: es_identificador_def)

lemma run_clasificar_token:
  "run_state (clasificar_token t) self =
     ((case map_of (palabras_clave self) t of
         Some tipo \<Rightarrow> Inr (tipo, t)
       | None \<Rightarrow>
           if re_match (patron_identificador self) t \<noteq> None
           then Inr (lit ''IDENTIFICADOR'', t) else Inr (lit ''ERROR_LEXICO'', t)), self)"
  by (simp add: clasificar_token_def dict_contains_def dict_getitem_def run_es_identificador
      split: option.splits)

lemma clasificar_token_Inr:
  "fst (run_state (clasificar_token palabra) self) =
     Inr (case map_of (palabras_clave self) palabra of
           Some tipo \<Rightarrow> tipo
         | None \<Rightarrow>
             if re_match (patron_identificador self) palabra \<noteq> None
             then lit ''IDENTIFICADOR'' else lit ''ERROR_LEXICO'', palabra)"
  by (simp add: run_clasificar_token del: not_None_eq split: option.splits)

lemma run_analizar_palabras:
  "run_state (analizar_palabras palabras tokens) self =
     (Inr (tokens @ map (\<lambda>palabra.
        (case map_of (palabras_clave self) palabra of
           Some tipo \<Rightarrow> tipo
         | None \<Rightarrow>
             if re_match (patron_identificador self) palabra \<noteq> None
             then lit ''IDENTIFICADOR'' else lit ''ERROR_LEXICO'', palabra)) palabras), self)"
proof (induction palabras arbitrary: tokens)
  case Nil
  show ?case by simp
next
  case (Cons palabra palabras)
  show ?case
    by (simp add: run_clasificar_token Cons.IH del: not_None_eq split: option.splits)
qed

section \<open>What the compiled pattern accepts\<close>

lemma en_clase_minuscula: "en_clase [(97, 122)] c = minuscula c"
  by (simp add: minuscula_def)

lemma en_clase_alnum: "en_clase [(97, 122), (48, 57)] c = (minuscula c \<or> digito c)"
  by (simp add: minuscula_def digito_def)

lemma alnum_no_newline: "minuscula c \<or> digito c \<Longrightarrow> c \<noteq> 10"
  by (auto simp: minuscula_def digito_def)

lemma repetir_fin:
  "re_match_at [Repetir [(97, 122), (48, 57)], Fin] ini s \<noteq> None \<longleftrightarrow>
     list_all (\<lambda>x. minuscula x \<or> digito x) s \<or>
     (\<exists>s'. s = s' @ [10] \<and> list_all (\<lambda>x. minuscula x \<or> digito x) s')"
proof (induction s arbitrary: ini)
  case Nil
  show ?case by simp
next
  case (Cons c cs)
  show ?case
  proof (cases "minuscula c \<or> digito c")
    case True
    then have c10: "c \<noteq> 10" by (rule alnum_no_newline)
    have "re_match_at [Repetir [(97, 122), (48, 57)], Fin] ini (c # cs) \<noteq> None \<longleftrightarrow>
          re_match_at [Repetir [(97, 122), (48, 57)], Fin] False cs \<noteq> None"
      using True c10 by (simp add: en_clase_alnum del: en_clase.simps split: option.splits)
    also have "\<dots> \<longleftrightarrow> list_all (\<lambda>x. minuscula x \<or> digito x) cs \<or>
       (\<exists>s'. cs = s' @ [10] \<and> list_all (\<lambda>x. minuscula x \<or> digito x) s')"
      by (rule Cons.IH)
    also have "\<dots> \<longleftrightarrow> list_all (\<lambda>x. minuscula x \<or> digito x) (c # cs) \<or>
       (\<exists>s'. c # cs = s' @ [10] \<and> list_all (\<lambda>x. minuscula x \<or> digito x) s')"
      using True c10 by (auto simp: Cons_eq_append_conv)
    finally show ?thesis .
  next
    case False
    have "re_match_at [Repetir [(97, 122), (48, 57)], Fin] ini (c # cs) \<noteq> None \<longleftrightarrow>
          c # cs = [10]"
      using False by (simp add: en_clase_alnum del: en_clase.simps)
    also have "\<dots> \<longleftrightarrow> list_all (\<lambda>x. minuscula x \<or> digito x) (c # cs) \<or>
       (\<exists>s'. c # cs = s' @ [10] \<and> list_all (\<lambda>x. minuscula x \<or> digito x) s')"
      using False by (auto simp: Cons_eq_append_conv)
    finally show ?thesis .
  qed
qed

lemma re_match_patron_compilado:
  "re_match patron_compilado t \<noteq> None \<longleftrightarrow>
     identificador_spec t \<or> (\<exists>s. t = s @ [10] \<and> identificador_spec s)"
proof (cases t)
  case Nil
  then show ?thesis by (simp add: re_match_def patron_compilado_def)
next
  case (Cons c cs)
  have "re_match patron_compilado t \<noteq> None \<longleftrightarrow>
        minuscula c \<and> re_match_at [Repetir [(97, 122), (48, 57)], Fin] False cs \<noteq> None"
    using Cons
    by (simp add: re_match_def patron_compilado_def en_clase_minuscula
        del: en_clase.simps re_match_at.simps(5))
  also have "\<dots> \<longleftrightarrow> minuscula c \<and> (list_all (\<lambda>x. minuscula x \<or> digito x) cs \<or>
     (\<exists>s'. cs = s' @ [10] \<and> list_all (\<lambda>x. minuscula x \<or> digito x) s'))"
    by (simp only: repetir_fin)
  also have "\<dots> \<longleftrightarrow> identificador_spec t \<or> (\<exists>s. t = s @ [10] \<and> identificador_spec s)"
  proof (cases "minuscula c")
    case True
    then have "c \<noteq> 10" by (simp add: alnum_no_newline)
    with True Cons show ?thesis
      by (auto simp: Cons_eq_append_conv)
  next
    case False
    with Cons show ?thesis by (auto simp: Cons_eq_append_conv)
  qed
  finally show ?thesis .
qed

lemma es_identificador_analizador:
  "fst (run_state (es_identificador t) (analizador T)) \<longleftrightarrow>
     identificador_spec t \<or> (\<exists>s. t = s @ [10] \<and> identificador_spec s)"
  by (simp add: run_es_identificador analizador_def re_match_patron_compilado del: not_None_eq)

section \<open>Splitting lines and loading the dictionary\<close>

lemma split_acc_all_space:
  "list_all isspace s \<Longrightarrow> split_acc w s = (if w = [] then [] else [w])"
  by (induction s arbitrary: w) auto

lemma split_acc_dropWhile: "split_acc [] (dropWhile isspace s) = split_acc [] s"
  by (induction s) auto

lemma rstrip_Cons:
  "rev (dropWhile isspace (rev (c # cs))) =
     (if list_all isspace cs then (if isspace c then [] else [c])
      else c # rev (dropWhile isspace (rev cs)))"
  by (auto simp: dropWhile_append list_all_iff)

lemma split_acc_rstrip:
  "split_acc w (rev (dropWhile isspace (rev s))) = split_acc w s"
proof (induction s arbitrary: w)
  case Nil
  show ?case by simp
next
  case (Cons c cs)
  show ?case
  proof (cases "list_all isspace cs")
    case True
    then show ?thesis
      by (simp only: rstrip_Cons) (simp add: split_acc_all_space)
  next
    case False
    then show ?thesis
      by (simp only: rstrip_Cons) (simp add: Cons.IH)
  qed
qed

lemma split_strip: "split (strip s) = split s"
  by (simp add: split_def strip_def split_acc_rstrip split_acc_dropWhile)

lemma split_Nil: "split [] = []"
  by (simp add: split_def)

lemma strip_empty_split: "strip s = [] \<Longrightarrow> split s = []"
  using split_strip [of s] by (simp add: split_Nil)

lemma run_cargar_linea:
  "run_state (cargar_linea l) self =
     (Inr (), if bien_formada l
              then self\<lparr>palabras_clave := dict_setitem (palabras_clave self) (split l ! 0) (split l ! 1)\<rparr>
              else self)"
proof (cases "strip l = []")
  case True
  then show ?thesis
    using strip_empty_split [OF True] by (simp add: cargar_linea_def bien_formada_def)
next
  case False
  show ?thesis
  proof (cases "length (split l) = 2")
    case True
    then obtain a b where ab: "split l = [a, b]"
      by (auto simp: length_Suc_conv numeral_2_eq_2)
    with False show ?thesis
      by (simp add: cargar_linea_def bien_formada_def split_strip Let_def)
  next
    case False
    then show ?thesis
      by (simp add: cargar_linea_def bien_formada_def split_strip Let_def)
  qed
qed

lemma run_for_each_cargar:
  "run_state (for_each cargar_linea ls) self =
     (Inr (), self\<lparr>palabras_clave :=
        construir (palabras_clave self)
          (map (\<lambda>linea. (split linea ! 0, split linea ! 1)) (filter bien_formada ls))\<rparr>)"
proof (induction ls arbitrary: self)
  case Nil
  show ?case by (simp add: construir_def)
next
  case (Cons l ls)
  show ?case
    by (simp add: run_cargar_linea Cons.IH construir_def)
qed

lemma run_cargar_diccionario:
  "run_state (cargar_diccionario (Inr contenido)) self =
     (Inr (), self\<lparr>palabras_clave := construir (palabras_clave self) (entradas contenido)\<rparr>)"
  by (simp add: cargar_diccionario_def run_for_each_cargar entradas_def)

lemma init_ok:
  "AnalizadorLexico_init (Inr contenido) = Inr (analizador (construir [] (entradas contenido)))"
  by (simp add: AnalizadorLexico_init_def run_cargar_diccionario analizador_def)

lemma init_error: "AnalizadorLexico_init (Inl e) = Inl e"
  by (simp add: AnalizadorLexico_init_def cargar_diccionario_def)

lemma map_of_dict_setitem: "map_of (dict_setitem d k v) = (map_of d)(k \<mapsto> v)"
  by (induction d k v rule: dict_setitem.induct) auto

lemma keys_dict_setitem: "fst ` set (dict_setitem d k v) = insert k (fst ` set d)"
  by (induction d k v rule: dict_setitem.induct) auto

lemma distinct_dict_setitem:
  "distinct (map fst d) \<Longrightarrow> distinct (map fst (dict_setitem d k v))"
  by (induction d k v rule: dict_setitem.induct) (auto simp: keys_dict_setitem)

lemma map_of_construir: "map_of (construir d es) = map_of d ++ map_of (rev es)"
proof (induction es arbitrary: d)
  case Nil
  show ?case by (simp add: construir_def)
next
  case (Cons e es)
  obtain k v where e: "e = (k, v)" by (cases e)
  have "map_of (construir d (e # es)) = map_of (construir (dict_setitem d k v) es)"
    by (simp add: construir_def e)
  also have "\<dots> = map_of (dict_setitem d k v) ++ map_of (rev es)"
    by (rule Cons.IH)
  also have "\<dots> = map_of d ++ map_of (rev (e # es))"
    by (simp add: map_of_dict_setitem e map_add_upd_left fun_eq_iff map_add_def split: option.splits)
  finally show ?case .
qed

lemma keys_construir: "fst ` set (construir d es) = fst ` set d \<union> fst ` set es"
proof (induction es arbitrary: d)
  case Nil
  show ?case by (simp add: construir_def)
next
  case (Cons e es)
  obtain k v where e: "e = (k, v)" by (cases e)
  have "construir d (e # es) = construir (dict_setitem d k v) es"
    by (simp add: construir_def e)
  then show ?case
    by (simp add: Cons.IH keys_dict_setitem e)
qed

lemma distinct_construir:
  "distinct (map fst d) \<Longrightarrow> distinct (map fst (construir d es))"
proof (induction es arbitrary: d)
  case Nil
  then show ?case by (simp add: construir_def)
next
  case (Cons e es)
  obtain k v where e: "e = (k, v)" by (cases e)
  have "construir d (e # es) = construir (dict_setitem d k v) es"
    by (simp add: construir_def e)
  with Cons show ?case
    by (simp add: distinct_dict_setitem)
qed

lemma dict_len_construir: "dict_len (construir [] es) = card (fst ` set es)"
proof -
  have "distinct (map fst (construir [] es))"
    by (rule distinct_construir) simp
  then have "length (map fst (construir [] es)) = card (set (map fst (construir [] es)))"
    by (simp only: distinct_card)
  then show ?thesis
    by (simp add: dict_len_def keys_construir)
qed

lemma map_of_ultima:
  assumes "es = antes @ (k, v) # despues" and "k \<notin> fst ` set despues"
  shows "map_of (rev es) k = Some v"
proof -
  have "map_of (rev despues) k = None"
    using assms(2) by (simp add: map_of_eq_None_iff)
  then show ?thesis
    using assms(1) by (simp add: map_add_def)
qed

lemma entradas_x_A_x_B:
  "entradas (lit ''x A\<newline>x B\<newline>'') = [(lit ''x'', lit ''A''), (lit ''x'', lit ''B'')]"
  by (simp add: entradas_def lineas_def bien_formada_def split_def isspace_def lit_def)

section \<open>The properties\<close>


text \<open>
  C2. \<open>clasificar_token\<close> never raises: for every string it returns a pair whose lexeme
  is the input and whose kind comes from exactly one of three exclusive cases (the
  table's kind for a key, IDENTIFICADOR, ERROR_LEXICO). The instances below are the
  empty string, an all-digit string, a mixed-case string and pure punctuation.
\<close>

theorem clasificar_token_total:
  "\<exists>tipo. fst (run_state (clasificar_token t) self) = Inr (tipo, t) \<and>
     (map_of (palabras_clave self) t = Some tipo
      \<or> (map_of (palabras_clave self) t = None \<and> fst (run_state (es_identificador t) self)
           \<and> tipo = lit ''IDENTIFICADOR'')
      \<or> (map_of (palabras_clave self) t = None \<and> \<not> fst (run_state (es_identificador t) self)
           \<and> tipo = lit ''ERROR_LEXICO''))"
  by (cases "map_of (palabras_clave self) t")
     (simp_all add: run_clasificar_token run_es_identificador)

theorem clasificar_token_total_witness:
  "fst (run_state (clasificar_token (lit '''')) (analizador [])) = Inr (lit ''ERROR_LEXICO'', lit '''')
   \<and> fst (run_state (clasificar_token (lit ''2024'')) (analizador [])) = Inr (lit ''ERROR_LEXICO'', lit ''2024'')
   \<and> fst (run_state (clasificar_token (lit ''aBc'')) (analizador [])) = Inr (lit ''ERROR_LEXICO'', lit ''aBc'')
   \<and> fst (run_state (clasificar_token (lit ''?!;'')) (analizador [])) = Inr (lit ''ERROR_LEXICO'', lit ''?!;'')"
  using clasificar_token_total [of "lit ''''" "analizador []"]
    clasificar_token_total [of "lit ''2024''" "analizador []"]
    clasificar_token_total [of "lit ''aBc''" "analizador []"]
    clasificar_token_total [of "lit ''?!;''" "analizador []"]
  by (simp add: analizador_def run_es_identificador re_match_def patron_compilado_def lit_def)

text \<open>
  C3. The documented rule says that only a lowercase letter followed by lowercase letters
  or digits is an identifier. The code accepts the two-character string made of \<open>a\<close> and
  a newline, which the rule rejects: \<open>$\<close> also matches before a final newline.
\<close>

theorem es_identificador_acepta_salto_final:
  "fst (run_state (es_identificador (lit ''a\<newline>'')) (analizador T))
   \<and> \<not> identificador_spec (lit ''a\<newline>'')"
  by (simp add: run_es_identificador analizador_def re_match_def patron_compilado_def lit_def
      minuscula_def digito_def)

text \<open>
  C4. Keyword precedence: a token that is a key of the table gets the table's kind, and
  gets it whatever the identifier pattern is, so the pattern plays no part in the
  result. In the instance below the keyword \<open>if\<close> is accepted by \<open>es_identificador\<close> and is
  still classified with the table's kind.
\<close>

theorem palabra_clave_precede:
  assumes "map_of (palabras_clave self) t = Some tipo"
  shows "fst (run_state (clasificar_token t) self) = Inr (tipo, t)
    \<and> fst (run_state (clasificar_token t) (self\<lparr>patron_identificador := p\<rparr>)) = Inr (tipo, t)"
  using assms by (simp add: run_clasificar_token)

theorem palabra_clave_precede_witness:
  "map_of (palabras_clave (analizador [(lit ''if'', lit ''PALABRA_RESERVADA'')])) (lit ''if'')
     = Some (lit ''PALABRA_RESERVADA'')
   \<and> fst (run_state (es_identificador (lit ''if'')) (analizador [(lit ''if'', lit ''PALABRA_RESERVADA'')]))
   \<and> fst (run_state (clasificar_token (lit ''if'')) (analizador [(lit ''if'', lit ''PALABRA_RESERVADA'')]))
       = Inr (lit ''PALABRA_RESERVADA'', lit ''if'')"
proof -
  have h: "map_of (palabras_clave (analizador [(lit ''if'', lit ''PALABRA_RESERVADA'')])) (lit ''if'')
     = Some (lit ''PALABRA_RESERVADA'')"
    by (simp add: analizador_def)
  have e: "fst (run_state (es_identificador (lit ''if'')) (analizador [(lit ''if'', lit ''PALABRA_RESERVADA'')]))"
    by (simp add: run_es_identificador analizador_def re_match_def patron_compilado_def lit_def)
  show ?thesis
    using h e palabra_clave_precede [OF h] by simp
qed

text \<open>
  C5. Order preservation: \<open>analizar_archivo\<close> classifies the words of \<open>contenido.split()\<close>
  with the loop \<open>analizar_palabras\<close>, and for every list of words the loop ends without an
  exception with a list \<open>tokens\<close> of the same length whose i-th element is what
  \<open>clasificar_token\<close> returns for the i-th word: the words mapped through
  \<open>clasificar_token\<close>, in input order.
\<close>

theorem analizar_archivo_conserva_orden:
  "fst (run_state (analizar_archivo (Inr contenido)) self)
     = fst (run_state (analizar_palabras (split contenido) []) self)
   \<and> (\<exists>tokens.
     fst (run_state (analizar_palabras palabras []) self) = Inr tokens
     \<and> map Inr tokens = map (\<lambda>palabra. fst (run_state (clasificar_token palabra) self)) palabras
     \<and> length tokens = length palabras
     \<and> (\<forall>i < length palabras.
           Inr (tokens ! i) = fst (run_state (clasificar_token (palabras ! i)) self)))"
proof -
  let ?f = "\<lambda>palabra.
        (case map_of (palabras_clave self) palabra of
           Some tipo \<Rightarrow> tipo
         | None \<Rightarrow>
             if re_match (patron_identificador self) palabra \<noteq> None
             then lit ''IDENTIFICADOR'' else lit ''ERROR_LEXICO'', palabra)"
  have 0: "fst (run_state (analizar_archivo (Inr contenido)) self)
     = fst (run_state (analizar_palabras (split contenido) []) self)"
    by (simp add: analizar_archivo_def)
  have 1: "fst (run_state (analizar_palabras palabras []) self) = Inr (map ?f palabras)"
    by (simp only: run_analizar_palabras fst_conv append_Nil)
  have 2: "map Inr (map ?f palabras) =
      map (\<lambda>palabra. fst (run_state (clasificar_token palabra) self)) palabras"
    by (simp only: clasificar_token_Inr map_map comp_def)
  have 3: "length (map ?f palabras) = length palabras"
    by simp
  have 4: "\<forall>i < length palabras.
      Inr (map ?f palabras ! i) = fst (run_state (clasificar_token (palabras ! i)) self)"
    by (simp only: clasificar_token_Inr) simp
  from 0 1 2 3 4 show ?thesis by blast
qed

theorem analizar_archivo_conserva_orden_witness:
  "fst (run_state (analizar_archivo (Inr (lit ''if x1 1x while'')))
        (analizador [(lit ''if'', lit ''KW_IF''), (lit ''while'', lit ''KW_WHILE'')]))
     = Inr [(lit ''KW_IF'', lit ''if''), (lit ''IDENTIFICADOR'', lit ''x1''),
            (lit ''ERROR_LEXICO'', lit ''1x''), (lit ''KW_WHILE'', lit ''while'')]"
proof -
  let ?A = "analizador [(lit ''if'', lit ''KW_IF''), (lit ''while'', lit ''KW_WHILE'')]"
  let ?ps = "[lit ''if'', lit ''x1'', lit ''1x'', lit ''while'']"
  have s: "split (lit ''if x1 1x while'') = ?ps"
    by (simp add: split_def lit_def isspace_def)
  obtain tokens where
    a: "fst (run_state (analizar_archivo (Inr (lit ''if x1 1x while''))) ?A)
         = fst (run_state (analizar_palabras (split (lit ''if x1 1x while'')) []) ?A)"
    and r: "fst (run_state (analizar_palabras ?ps []) ?A) = Inr tokens"
    and t: "map Inr tokens = map (\<lambda>palabra. fst (run_state (clasificar_token palabra) ?A)) ?ps"
    using analizar_archivo_conserva_orden [of "lit ''if x1 1x while''" ?A ?ps] by blast
  have c: "map (\<lambda>palabra. fst (run_state (clasificar_token palabra) ?A)) ?ps =
     map Inr [(lit ''KW_IF'', lit ''if''), (lit ''IDENTIFICADOR'', lit ''x1''),
            (lit ''ERROR_LEXICO'', lit ''1x''), (lit ''KW_WHILE'', lit ''while'')]"
    by (simp add: run_clasificar_token analizador_def re_match_def patron_compilado_def lit_def)
  from t c have "tokens = [(lit ''KW_IF'', lit ''if''), (lit ''IDENTIFICADOR'', lit ''x1''),
            (lit ''ERROR_LEXICO'', lit ''1x''), (lit ''KW_WHILE'', lit ''while'')]"
    by (simp only: inj_map_eq_map [OF inj_Inr])
  with a r s show ?thesis by (simp only:)
qed

text \<open>
  C6. Last occurrence wins: the table that \<open>__init__\<close> loads is the result of inserting
  the entries of the file in order, and a lexeme is recorded with the kind of its last
  entry, whatever entries came before it. The instance below is the file with the lines
  \<open>x A\<close> and \<open>x B\<close>, where looking up \<open>x\<close> gives \<open>B\<close>.
\<close>

theorem ultima_ocurrencia_gana:
  assumes "entradas contenido = antes @ (lexema, tipo) # despues"
    and "lexema \<notin> fst ` set despues"
  shows "\<exists>self. AnalizadorLexico_init (Inr contenido) = Inr self
           \<and> palabras_clave self = construir [] (entradas contenido)
           \<and> dict_getitem (palabras_clave self) lexema = Inr tipo"
proof -
  have "map_of (construir [] (entradas contenido)) lexema = Some tipo"
    using map_of_ultima [OF assms] by (simp add: map_of_construir)
  then have "dict_getitem (construir [] (entradas contenido)) lexema = Inr tipo"
    by (simp add: dict_getitem_def)
  then show ?thesis
    by (simp add: init_ok analizador_def)
qed

theorem ultima_ocurrencia_gana_witness:
  "entradas (lit ''x A\<newline>x B\<newline>'') = [(lit ''x'', lit ''A'')] @ (lit ''x'', lit ''B'') # []
   \<and> lit ''x'' \<notin> fst ` set ([] :: (str \<times> str) list)
   \<and> (\<exists>self. AnalizadorLexico_init (Inr (lit ''x A\<newline>x B\<newline>'')) = Inr self
         \<and> palabras_clave self = [(lit ''x'', lit ''B'')]
         \<and> dict_getitem (palabras_clave self) (lit ''x'') = Inr (lit ''B''))"
proof -
  have h1: "entradas (lit ''x A\<newline>x B\<newline>'') = [(lit ''x'', lit ''A'')] @ (lit ''x'', lit ''B'') # []"
    by (simp add: entradas_x_A_x_B)
  have h2: "lit ''x'' \<notin> fst ` set ([] :: (str \<times> str) list)"
    by simp
  have c: "construir [] (entradas (lit ''x A\<newline>x B\<newline>'')) = [(lit ''x'', lit ''B'')]"
    by (simp add: entradas_x_A_x_B construir_def)
  show ?thesis
    using h1 h2 ultima_ocurrencia_gana [OF h1 h2] unfolding c by simp
qed

text \<open>
  C7, as stated, fails: the file with the lines \<open>x A\<close> and \<open>x B\<close> has two well-formed
  lines and loads a table of size one, since the second line overwrites the first.
\<close>

theorem tamano_tabla_counterexample:
  "AnalizadorLexico_init (Inr (lit ''x A\<newline>x B\<newline>'')) = Inr (analizador [(lit ''x'', lit ''B'')])
   \<and> dict_len (palabras_clave (analizador [(lit ''x'', lit ''B'')])) = 1
   \<and> length (filter bien_formada (lineas (lit ''x A\<newline>x B\<newline>''))) = 2"
proof -
  have "construir [] (entradas (lit ''x A\<newline>x B\<newline>'')) = [(lit ''x'', lit ''B'')]"
    by (simp add: entradas_x_A_x_B construir_def)
  then have "AnalizadorLexico_init (Inr (lit ''x A\<newline>x B\<newline>'')) = Inr (analizador [(lit ''x'', lit ''B'')])"
    by (simp add: init_ok)
  moreover have "dict_len (palabras_clave (analizador [(lit ''x'', lit ''B'')])) = 1"
    by (simp add: dict_len_def analizador_def)
  moreover have "length (filter bien_formada (lineas (lit ''x A\<newline>x B\<newline>''))) = 2"
    by (simp add: lineas_def bien_formada_def split_def isspace_def lit_def)
  ultimately show ?thesis by simp
qed

text \<open>
  C7, amended. A line that is not well formed (a blank line, a line with one field or
  with three) leaves the analyzer as it was, and loading never raises on the content of
  the file. The size of the loaded table is the number of distinct lexemes of the
  well-formed lines: at most the number of well-formed lines, and equal to it when no
  lexeme occurs twice.
\<close>

theorem lineas_mal_formadas_omitidas:
  "(\<not> bien_formada linea \<longrightarrow> run_state (cargar_linea linea) self = (Inr (), self))
   \<and> fst (run_state (cargar_diccionario (Inr contenido)) self) = Inr ()
   \<and> (\<exists>self'. AnalizadorLexico_init (Inr contenido) = Inr self'
        \<and> dict_len (palabras_clave self') = card (fst ` set (entradas contenido))
        \<and> dict_len (palabras_clave self') \<le> length (filter bien_formada (lineas contenido))
        \<and> (distinct (map fst (entradas contenido)) \<longrightarrow>
             dict_len (palabras_clave self') = length (filter bien_formada (lineas contenido))))"
proof -
  have 1: "\<not> bien_formada linea \<longrightarrow> run_state (cargar_linea linea) self = (Inr (), self)"
    by (simp add: run_cargar_linea)
  have 2: "fst (run_state (cargar_diccionario (Inr contenido)) self) = Inr ()"
    by (simp add: run_cargar_diccionario)
  let ?es = "entradas contenido"
  have len: "length ?es = length (filter bien_formada (lineas contenido))"
    by (simp add: entradas_def)
  have 3: "dict_len (construir [] ?es) = card (fst ` set ?es)"
    by (rule dict_len_construir)
  have "card (fst ` set ?es) \<le> length ?es"
    using card_length [of "map fst ?es"] by simp
  with 3 len have 4: "dict_len (construir [] ?es) \<le> length (filter bien_formada (lineas contenido))"
    by simp
  have 5: "distinct (map fst ?es) \<longrightarrow>
       dict_len (construir [] ?es) = length (filter bien_formada (lineas contenido))"
  proof
    assume "distinct (map fst ?es)"
    then have "card (set (map fst ?es)) = length (map fst ?es)"
      by (rule distinct_card)
    with 3 len show "dict_len (construir [] ?es) = length (filter bien_formada (lineas contenido))"
      by simp
  qed
  have "AnalizadorLexico_init (Inr contenido) = Inr (analizador (construir [] ?es))
      \<and> palabras_clave (analizador (construir [] ?es)) = construir [] ?es"
    by (simp add: init_ok analizador_def)
  with 1 2 3 4 5 show ?thesis by simp
qed

theorem lineas_mal_formadas_omitidas_witness:
  "\<not> bien_formada (lit ''a b c\<newline>'') \<and> \<not> bien_formada (lit ''uno\<newline>'') \<and> \<not> bien_formada (lit ''\<newline>'')
   \<and> run_state (cargar_linea (lit ''a b c\<newline>'')) (analizador []) = (Inr (), analizador [])
   \<and> distinct (map fst (entradas (lit ''x A\<newline>\<newline>uno\<newline>a b c\<newline>y C'')))
   \<and> length (filter bien_formada (lineas (lit ''x A\<newline>\<newline>uno\<newline>a b c\<newline>y C''))) = 2
   \<and> (\<exists>self'. AnalizadorLexico_init (Inr (lit ''x A\<newline>\<newline>uno\<newline>a b c\<newline>y C'')) = Inr self'
        \<and> dict_len (palabras_clave self') = 2)"
proof -
  have m: "\<not> bien_formada (lit ''a b c\<newline>'')" "\<not> bien_formada (lit ''uno\<newline>'')"
    "\<not> bien_formada (lit ''\<newline>'')"
    by (simp_all add: bien_formada_def split_def isspace_def lit_def)
  have e: "entradas (lit ''x A\<newline>\<newline>uno\<newline>a b c\<newline>y C'') = [(lit ''x'', lit ''A''), (lit ''y'', lit ''C'')]"
    by (simp add: entradas_def lineas_def bien_formada_def split_def isspace_def lit_def)
  have d: "distinct (map fst (entradas (lit ''x A\<newline>\<newline>uno\<newline>a b c\<newline>y C'')))"
    unfolding e by (simp add: lit_def)
  have n: "length (filter bien_formada (lineas (lit ''x A\<newline>\<newline>uno\<newline>a b c\<newline>y C''))) = 2"
    by (simp add: lineas_def bien_formada_def split_def isspace_def lit_def)
  show ?thesis
    using m d n
      lineas_mal_formadas_omitidas [of "lit ''a b c\<newline>''" "analizador []"
        "lit ''x A\<newline>\<newline>uno\<newline>a b c\<newline>y C''"]
    by auto
qed

text \<open>
  C8. Determinism: two successive calls of \<open>clasificar_token\<close> on the same token, the
  second one in the state the first one leaves, return equal results.
\<close>

theorem clasificar_token_determinista:
  "fst (run_state (do {
          r1 \<leftarrow> clasificar_token t;
          r2 \<leftarrow> clasificar_token t;
          State_Monad.return (r1 = r2)
        }) self)"
  by (simp add: run_clasificar_token)

text \<open>
  C9. Classification mutates nothing: \<open>clasificar_token\<close> and \<open>es_identificador\<close> leave
  the analyzer, hence its keyword table and its compiled pattern, as they were before
  the call.
\<close>

theorem clasificacion_no_muta_estado:
  "snd (run_state (clasificar_token t) self) = self
   \<and> snd (run_state (es_identificador t) self) = self
   \<and> palabras_clave (snd (run_state (clasificar_token t) self)) = palabras_clave self
   \<and> patron_identificador (snd (run_state (clasificar_token t) self)) = patron_identificador self"
  by (simp add: run_clasificar_token run_es_identificador)

text \<open>
  C10, as stated, fails: \<open>a\<close> followed by a newline is accepted, and that string followed
  by one more newline is not.
\<close>

theorem salto_final_tras_salto_counterexample:
  "fst (run_state (es_identificador (lit ''a\<newline>'')) (analizador []))
   \<and> \<not> fst (run_state (es_identificador (lit ''a\<newline>'' @ [10])) (analizador []))"
  by (simp add: run_es_identificador analizador_def re_match_def patron_compilado_def lit_def)

text \<open>
  C10, amended. For every string \<open>s\<close> that \<open>es_identificador\<close> accepts and that does not
  itself end in a newline, \<open>s\<close> followed by one newline is accepted too, and when that
  string is not a key of the table it is classified as IDENTIFICADOR with the newline
  kept in the lexeme. The instance below is \<open>abc\<close>.
\<close>

theorem salto_final_aceptado:
  assumes "fst (run_state (es_identificador s) (analizador T))"
    and "s = [] \<or> last s \<noteq> 10"
  shows "fst (run_state (es_identificador (s @ [10])) (analizador T))
     \<and> (map_of T (s @ [10]) = None \<longrightarrow>
          fst (run_state (clasificar_token (s @ [10])) (analizador T))
            = Inr (lit ''IDENTIFICADOR'', s @ [10]))"
proof -
  from assms(1) have "identificador_spec s \<or> (\<exists>s'. s = s' @ [10] \<and> identificador_spec s')"
    by (simp only: es_identificador_analizador)
  with assms(2) have spec: "identificador_spec s"
    by auto
  then have acc: "fst (run_state (es_identificador (s @ [10])) (analizador T))"
    by (simp only: es_identificador_analizador) blast
  then have "re_match patron_compilado (s @ [10]) \<noteq> None"
    by (simp add: run_es_identificador analizador_def del: not_None_eq)
  then have "map_of T (s @ [10]) = None \<longrightarrow>
          fst (run_state (clasificar_token (s @ [10])) (analizador T))
            = Inr (lit ''IDENTIFICADOR'', s @ [10])"
    by (simp add: run_clasificar_token analizador_def del: not_None_eq)
  with acc show ?thesis by simp
qed

theorem salto_final_aceptado_witness:
  "fst (run_state (es_identificador (lit ''abc'')) (analizador []))
   \<and> last (lit ''abc'') \<noteq> 10
   \<and> fst (run_state (es_identificador (lit ''abc\<newline>'')) (analizador []))
   \<and> fst (run_state (clasificar_token (lit ''abc\<newline>'')) (analizador []))
       = Inr (lit ''IDENTIFICADOR'', lit ''abc\<newline>'')"
proof -
  have h1: "fst (run_state (es_identificador (lit ''abc'')) (analizador []))"
    by (simp add: run_es_identificador analizador_def re_match_def patron_compilado_def lit_def)
  have h2: "lit ''abc'' = [] \<or> last (lit ''abc'') \<noteq> 10"
    by (simp add: lit_def)
  have e: "lit ''abc'' @ [10] = lit ''abc\<newline>''"
    by (simp add: lit_def)
  have m: "map_of [] (lit ''abc\<newline>'') = (None :: str option)"
    by simp
  show ?thesis
    using h1 h2 m salto_final_aceptado [OF h1 h2] unfolding e
    by (simp add: lit_def)
qed

section \<open>Further properties\<close>

text \<open>
  What \<open>es_identificador\<close> accepts, exactly: the strings of the documented rule, and
  those strings followed by one newline.
\<close>

theorem es_identificador_caracterizacion:
  "fst (run_state (es_identificador t) (analizador T)) \<longleftrightarrow>
     identificador_spec t \<or> (\<exists>s. t = s @ [10] \<and> identificador_spec s)"
proof -
  have "fst (run_state (es_identificador t) (analizador T)) \<longleftrightarrow>
      re_match patron_compilado t \<noteq> None"
    by (simp add: run_es_identificador analizador_def del: not_None_eq)
  then show ?thesis
    by (simp only: re_match_patron_compilado)
qed

text \<open>
  With the empty keyword table every token is classified by the identifier check alone:
  IDENTIFICADOR when \<open>es_identificador\<close> accepts it, ERROR_LEXICO otherwise.
\<close>

theorem tabla_vacia_clasifica_por_patron:
  "fst (run_state (clasificar_token t) (analizador [])) =
     (if fst (run_state (es_identificador t) (analizador []))
      then Inr (lit ''IDENTIFICADOR'', t) else Inr (lit ''ERROR_LEXICO'', t))"
  by (simp add: run_clasificar_token run_es_identificador analizador_def del: not_None_eq)

end
